theory Spec2Isabelle
  imports Complex_Main "HOL-Library.AList"
begin

section \<open>Theoretical yield calculator: the embedding\<close>

text \<open>
  The program is one Python function, \<^verbatim>\<open>calculate_theoretical_yield\<close> (code.py, lines 12-75),
  which calls two functions of the RDKit library: \<^verbatim>\<open>Chem.MolFromSmiles\<close> and
  \<^verbatim>\<open>CalcExactMolWt\<close>. The library is not part of the program, so both functions are
  parameters of the model.

  Conventions of the embedding:
  \<^item> Python numbers (masses, ratios, weights) are modelled as \<open>real\<close>; rounding, infinities
    and NaN of IEEE doubles are outside the model. Python's true division raises
    \<^verbatim>\<open>ZeroDivisionError\<close> on a zero divisor; that is written out in \<open>py_truediv\<close>.
  \<^item> A Python dict is an association list in insertion order, which is the order in which
    Python iterates it. Storing under a key is \<open>AList.update\<close>: an existing key keeps its
    position, a new key goes to the end.
  \<^item> A raised exception is \<open>Inl e\<close> of the type \<open>exn + 'a\<close>; a \<^verbatim>\<open>try ... except Exception\<close>
    block is a case distinction on that sum.
  \<^item> The docstring gives the types of the arguments: every value of \<^verbatim>\<open>reactants\<close> is a dict
    and \<^verbatim>\<open>mole_ratio_product\<close> is a float. \<open>calculate_theoretical_yield\<close> is the function on
    arguments of these types; \<open>calculate_theoretical_yield_untyped\<close> is the function on
    arguments of other types as well, where line 31 and line 57 can raise.
  \<^item> The returned dict is either \<^verbatim>\<open>{"error": message}\<close> or the two-key success dict; it is
    the datatype \<open>result\<close>. Each of the six \<^verbatim>\<open>return {"error": ...}\<close> statements has its own
    constructor of \<open>error\<close>, and \<open>error_message\<close> gives the text of the message.
\<close>

subsection \<open>Data\<close>

text \<open>Exceptions that the code or the library can raise. \<open>LibraryError\<close> carries the message
  of an exception raised inside RDKit.\<close>

datatype exn =
    ZeroDivisionError | ValueError | TypeError | KeyError | AttributeError | OverflowError
  | LibraryError string

text \<open>The value stored for one reactant. A key that is absent from the dict is \<open>None\<close>,
  which is also what \<^verbatim>\<open>data.get(key)\<close> returns for it.\<close>

record reactant_data =
  smiles :: "string option"
  weight_g :: "real option"
  mole_ratio :: "real option"

text \<open>One constructor for each error return, in the order of the source (lines 35, 40, 47,
  51, 63, 67).\<close>

datatype error =
    InvalidReactantData string
  | ReactantSmilesUnparsed string string
  | ReactantException string exn
  | NoValidReactants
  | ProductSmilesUnparsed string
  | ProductException exn

datatype result =
    Failure error
  | Success (theoretical_yield_g: real) (limiting_reactant: string)

text \<open>The error taxonomy of the specification (section 7).\<close>

datatype error_kind = MissingField | ParseFailure | NoReactants | UnexpectedFailure

fun kind_of :: "error \<Rightarrow> error_kind" where
  "kind_of (InvalidReactantData name) = MissingField"
| "kind_of (ReactantSmilesUnparsed name smi) = ParseFailure"
| "kind_of (ReactantException name e) = UnexpectedFailure"
| "kind_of NoValidReactants = NoReactants"
| "kind_of (ProductSmilesUnparsed smi) = ParseFailure"
| "kind_of (ProductException e) = UnexpectedFailure"

text \<open>The f-strings of the six error returns. The text of \<^verbatim>\<open>str(e)\<close> is the
  interpreter's and the library's, so the function \<open>str\<close> is a parameter.\<close>

fun error_message :: "(exn \<Rightarrow> string) \<Rightarrow> error \<Rightarrow> string" where
  "error_message str (InvalidReactantData name) =
     ''Invalid data for reactant '' @ [CHR 0x27] @ name @ [CHR 0x27] @ ''. Missing SMILES or weight.''"
| "error_message str (ReactantSmilesUnparsed name smi) =
     ''Could not parse SMILES for reactant '' @ [CHR 0x27] @ name @ [CHR 0x27] @ '': '' @ smi"
| "error_message str (ReactantException name e) =
     ''An error occurred with reactant '' @ [CHR 0x27] @ name @ [CHR 0x27] @ '': '' @ str e"
| "error_message str NoValidReactants = ''No valid reactants provided.''"
| "error_message str (ProductSmilesUnparsed smi) = ''Could not parse SMILES for product: '' @ smi"
| "error_message str (ProductException e) = ''An error occurred with the product SMILES: '' @ str e"

subsection \<open>Python primitives\<close>

text \<open>\<^verbatim>\<open>a / b\<close> on numbers.\<close>

definition py_truediv :: "real \<Rightarrow> real \<Rightarrow> exn + real" where
  "py_truediv a b = (if b = 0 then Inl ZeroDivisionError else Inr (a / b))"

text \<open>\<^verbatim>\<open>a < b\<close> where either side may be \<^verbatim>\<open>None\<close> (the result of \<^verbatim>\<open>dict.get\<close> on a
  missing key): comparing with \<^verbatim>\<open>None\<close> raises \<^verbatim>\<open>TypeError\<close>.\<close>

definition py_lt :: "real option \<Rightarrow> real option \<Rightarrow> exn + bool" where
  "py_lt a b = (case (a, b) of (Some x, Some y) \<Rightarrow> Inr (x < y) | _ \<Rightarrow> Inl TypeError)"

text \<open>\<^verbatim>\<open>min(iterable, key=f)\<close>: the first item becomes the candidate; a later item replaces
  it only when its key is strictly smaller. An empty iterable raises \<^verbatim>\<open>ValueError\<close>.\<close>

fun py_min_loop :: "('a \<Rightarrow> real option) \<Rightarrow> 'a \<Rightarrow> real option \<Rightarrow> 'a list \<Rightarrow> exn + 'a" where
  "py_min_loop key best bestval [] = Inr best"
| "py_min_loop key best bestval (x # xs) =
     (case py_lt (key x) bestval of
        Inl e \<Rightarrow> Inl e
      | Inr True \<Rightarrow> py_min_loop key x (key x) xs
      | Inr False \<Rightarrow> py_min_loop key best bestval xs)"

definition py_min :: "('a \<Rightarrow> real option) \<Rightarrow> 'a list \<Rightarrow> exn + 'a" where
  "py_min key xs = (case xs of [] \<Rightarrow> Inl ValueError | x # rest \<Rightarrow> py_min_loop key x (key x) rest)"

text \<open>\<^verbatim>\<open>d[k]\<close>: raises \<^verbatim>\<open>KeyError\<close> on a missing key.\<close>

definition py_getitem :: "('k \<times> 'v) list \<Rightarrow> 'k \<Rightarrow> exn + 'v" where
  "py_getitem d k = (case map_of d k of None \<Rightarrow> Inl KeyError | Some v \<Rightarrow> Inr v)"

subsection \<open>The calculation\<close>

text \<open>\<^verbatim>\<open>data.get('mole_ratio', 1.0)\<close> (line 44).\<close>

definition get_mole_ratio :: "reactant_data \<Rightarrow> real" where
  "get_mole_ratio data = (case mole_ratio data of None \<Rightarrow> 1 | Some r \<Rightarrow> r)"

text \<open>The body of the first \<^verbatim>\<open>try\<close> (lines 38-44). The outer sum is an exception raised in
  the body; the inner sum is the early return of line 40 against the value stored in
  \<^verbatim>\<open>moles_of_reactants[name]\<close>. \<^verbatim>\<open>MolFromSmiles\<close> returns \<^verbatim>\<open>None\<close> for a string it cannot
  parse, and \<^verbatim>\<open>not mol\<close> holds for \<^verbatim>\<open>None\<close> only.\<close>

definition reactant_try_body ::
  "(string \<Rightarrow> exn + 'm option) \<Rightarrow> ('m \<Rightarrow> exn + real) \<Rightarrow> string \<Rightarrow> reactant_data \<Rightarrow>
     string \<Rightarrow> real \<Rightarrow> exn + (error + real)" where
  "reactant_try_body MolFromSmiles CalcExactMolWt name data smi w =
     (case MolFromSmiles smi of
        Inl e \<Rightarrow> Inl e
      | Inr None \<Rightarrow> Inr (Inl (ReactantSmilesUnparsed name smi))
      | Inr (Some mol) \<Rightarrow>
          (case CalcExactMolWt mol of
             Inl e \<Rightarrow> Inl e
           | Inr mol_weight \<Rightarrow>
               (case py_truediv w mol_weight of
                  Inl e \<Rightarrow> Inl e
                | Inr moles \<Rightarrow>
                    (case py_truediv moles (get_mole_ratio data) of
                       Inl e \<Rightarrow> Inl e
                     | Inr normalized \<Rightarrow> Inr (Inr normalized)))))"

text \<open>One iteration of the loop (lines 31-47): \<open>Inl\<close> is the error dict that the iteration
  returns, \<open>Inr\<close> the value it stores. \<^verbatim>\<open>not smiles\<close> holds for \<^verbatim>\<open>None\<close> and for the empty
  string, \<^verbatim>\<open>not weight_g\<close> for \<^verbatim>\<open>None\<close> and for zero.\<close>

definition process_reactant ::
  "(string \<Rightarrow> exn + 'm option) \<Rightarrow> ('m \<Rightarrow> exn + real) \<Rightarrow> string \<Rightarrow> reactant_data \<Rightarrow>
     error + real" where
  "process_reactant MolFromSmiles CalcExactMolWt name data =
     (case (smiles data, weight_g data) of
        (Some smi, Some w) \<Rightarrow>
          if smi = [] \<or> w = 0 then Inl (InvalidReactantData name)
          else (case reactant_try_body MolFromSmiles CalcExactMolWt name data smi w of
                  Inl e \<Rightarrow> Inl (ReactantException name e)
                | Inr r \<Rightarrow> r)
      | _ \<Rightarrow> Inl (InvalidReactantData name))"

text \<open>The loop over \<^verbatim>\<open>reactants.items()\<close> (lines 30-47), with the dict
  \<^verbatim>\<open>moles_of_reactants\<close> as its state.\<close>

fun reactants_loop ::
  "(string \<Rightarrow> exn + 'm option) \<Rightarrow> ('m \<Rightarrow> exn + real) \<Rightarrow> (string \<times> real) list \<Rightarrow>
     (string \<times> reactant_data) list \<Rightarrow> error + (string \<times> real) list" where
  "reactants_loop MolFromSmiles CalcExactMolWt moles_of_reactants [] = Inr moles_of_reactants"
| "reactants_loop MolFromSmiles CalcExactMolWt moles_of_reactants ((name, data) # rest) =
     (case process_reactant MolFromSmiles CalcExactMolWt name data of
        Inl err \<Rightarrow> Inl err
      | Inr normalized \<Rightarrow>
          reactants_loop MolFromSmiles CalcExactMolWt
            (AList.update name normalized moles_of_reactants) rest)"

text \<open>The second \<^verbatim>\<open>try\<close> (lines 60-67): the error dict, or the product's molecular weight.\<close>

definition product_try_body ::
  "(string \<Rightarrow> exn + 'm option) \<Rightarrow> ('m \<Rightarrow> exn + real) \<Rightarrow> string \<Rightarrow> exn + (error + real)" where
  "product_try_body MolFromSmiles CalcExactMolWt product_smiles =
     (case MolFromSmiles product_smiles of
        Inl e \<Rightarrow> Inl e
      | Inr None \<Rightarrow> Inr (Inl (ProductSmilesUnparsed product_smiles))
      | Inr (Some product_mol) \<Rightarrow>
          (case CalcExactMolWt product_mol of
             Inl e \<Rightarrow> Inl e
           | Inr product_mol_weight \<Rightarrow> Inr (Inr product_mol_weight)))"

definition resolve_product ::
  "(string \<Rightarrow> exn + 'm option) \<Rightarrow> ('m \<Rightarrow> exn + real) \<Rightarrow> string \<Rightarrow> error + real" where
  "resolve_product MolFromSmiles CalcExactMolWt product_smiles =
     (case product_try_body MolFromSmiles CalcExactMolWt product_smiles of
        Inl e \<Rightarrow> Inl (ProductException e)
      | Inr r \<Rightarrow> r)"

text \<open>The whole function, on arguments of the documented types (lines 16-21): every value
  of \<^verbatim>\<open>reactants\<close> is a dict and \<^verbatim>\<open>mole_ratio_product\<close> is a float, so that \<^verbatim>\<open>data.get\<close>
  (lines 31-32) and the product of two floats (line 57) do not raise. \<open>Inl e\<close> is an
  exception that leaves the function, \<open>Inr r\<close> the dict it returns. Lines 53 and 54 are
  outside every \<^verbatim>\<open>try\<close>, so an exception of \<^verbatim>\<open>min\<close> or of the subscript would leave the
  function.\<close>

definition calculate_theoretical_yield ::
  "(string \<Rightarrow> exn + 'm option) \<Rightarrow> ('m \<Rightarrow> exn + real) \<Rightarrow> (string \<times> reactant_data) list \<Rightarrow>
     string \<Rightarrow> real \<Rightarrow> exn + result" where
  "calculate_theoretical_yield MolFromSmiles CalcExactMolWt reactants product_smiles
       mole_ratio_product =
     (case reactants_loop MolFromSmiles CalcExactMolWt [] reactants of
        Inl err \<Rightarrow> Inr (Failure err)
      | Inr moles_of_reactants \<Rightarrow>
          if moles_of_reactants = [] then Inr (Failure NoValidReactants)
          else
            (case py_min (map_of moles_of_reactants) (map fst moles_of_reactants) of
               Inl e \<Rightarrow> Inl e
             | Inr limiting_reactant_name \<Rightarrow>
                 (case py_getitem moles_of_reactants limiting_reactant_name of
                    Inl e \<Rightarrow> Inl e
                  | Inr moles_limiting \<Rightarrow>
                      (let theoretical_moles_product = moles_limiting * mole_ratio_product in
                       case resolve_product MolFromSmiles CalcExactMolWt product_smiles of
                         Inl err \<Rightarrow> Inr (Failure err)
                       | Inr product_mol_weight \<Rightarrow>
                           Inr (Success (theoretical_moles_product * product_mol_weight)
                                  limiting_reactant_name)))))"

subsection \<open>Arguments of other types\<close>







subsection \<open>The specification's normalized mole count\<close>

text \<open>
  Section 4.1, step 1 of the specification, in its own words: resolve the structural
  identifier, take the exact molecular weight, then \<open>moles = mass / weight\<close> and
  \<open>normalized_moles = moles / mole_ratio\<close>, with the ratio 1.0 when it is unspecified. The
  definition is written from these words alone and uses no part of the code above. The value
  is \<open>Some\<close> for a reactant whose identifier and mass are present and not empty or zero, whose
  identifier resolves, and whose weight and ratio are not zero (so that the quotient is
  defined); it is \<open>None\<close> for every other reactant. It is the reference that
  \<open>process_reactant\<close> is compared with.
\<close>

definition normalized_moles_spec ::
  "(string \<Rightarrow> exn + 'm option) \<Rightarrow> ('m \<Rightarrow> exn + real) \<Rightarrow> reactant_data \<Rightarrow> real option" where
  "normalized_moles_spec resolve exact_weight r =
     (case (smiles r, weight_g r) of
        (Some identifier, Some mass) \<Rightarrow>
          (case resolve identifier of
             Inr (Some structure) \<Rightarrow>
               (case exact_weight structure of
                  Inr weight \<Rightarrow>
                    (case mole_ratio r of
                       None \<Rightarrow>
                         if identifier = [] \<or> mass = 0 \<or> weight = 0 then None
                         else Some ((mass / weight) / 1)
                     | Some ratio \<Rightarrow>
                         if identifier = [] \<or> mass = 0 \<or> weight = 0 \<or> ratio = 0 then None
                         else Some ((mass / weight) / ratio))
                | Inl e \<Rightarrow> None)
           | _ \<Rightarrow> None)
      | _ \<Rightarrow> None)"

subsection \<open>A small resolver for the examples\<close>

text \<open>
  Three answers of the library, enough to run the function on concrete inputs: ethanol
  (\<^verbatim>\<open>CCO\<close>), water (\<^verbatim>\<open>O\<close>) and the wildcard atom \<^verbatim>\<open>*\<close>, a structure without mass, taken
  with exact weight zero. Every other string is taken as one that the library cannot parse.
\<close>

datatype example_mol = Ethanol | Water | Wildcard

definition example_MolFromSmiles :: "string \<Rightarrow> exn + example_mol option" where
  "example_MolFromSmiles smi =
     (if smi = ''CCO'' then Inr (Some Ethanol)
      else if smi = ''O'' then Inr (Some Water)
      else if smi = ''*'' then Inr (Some Wildcard)
      else Inr None)"

fun example_CalcExactMolWt :: "example_mol \<Rightarrow> exn + real" where
  "example_CalcExactMolWt Ethanol = Inr 46.041864811"
| "example_CalcExactMolWt Water = Inr 18.010564683"
| "example_CalcExactMolWt Wildcard = Inr 0"

definition ethanol_46g :: reactant_data where
  "ethanol_46g = \<lparr>smiles = Some ''CCO'', weight_g = Some 46, mole_ratio = Some 1\<rparr>"

definition water_9g :: reactant_data where
  "water_9g = \<lparr>smiles = Some ''O'', weight_g = Some 9, mole_ratio = Some 1\<rparr>"

text \<open>Reactant records for the examples, and a resolver that raises on one string.\<close>

definition unparsed_5g :: reactant_data where
  "unparsed_5g = \<lparr>smiles = Some ''not a smiles'', weight_g = Some 5, mole_ratio = Some 1\<rparr>"

definition wildcard_5g :: reactant_data where
  "wildcard_5g = \<lparr>smiles = Some ''*'', weight_g = Some 5, mole_ratio = Some 1\<rparr>"

definition water_no_mass :: reactant_data where
  "water_no_mass = \<lparr>smiles = Some ''O'', weight_g = None, mole_ratio = Some 1\<rparr>"

definition water_zero_mass :: reactant_data where
  "water_zero_mass = \<lparr>smiles = Some ''O'', weight_g = Some 0, mole_ratio = Some 1\<rparr>"

definition water_9g_no_ratio :: reactant_data where
  "water_9g_no_ratio = \<lparr>smiles = Some ''O'', weight_g = Some 9, mole_ratio = None\<rparr>"

definition water_15g_ratio_3 :: reactant_data where
  "water_15g_ratio_3 = \<lparr>smiles = Some ''O'', weight_g = Some 15, mole_ratio = Some 3\<rparr>"


section \<open>Properties of the parts\<close>

subsection \<open>One reactant\<close>

text \<open>The iteration returns a value exactly for the reactants that the specification gives
  a normalized mole count, and the value is that count.\<close>

lemma process_reactant_refines:
  "(case process_reactant M W name d of Inl err \<Rightarrow> None | Inr v \<Rightarrow> Some v) = normalized_moles_spec M W d"
proof (cases "smiles d")
  case None
  then show ?thesis by (simp add: process_reactant_def normalized_moles_spec_def)
next
  case (Some s)
  note s = this
  show ?thesis
  proof (cases "weight_g d")
    case None
    with s show ?thesis by (simp add: process_reactant_def normalized_moles_spec_def)
  next
    case (Some w)
    note w = this
    show ?thesis
    proof (cases "M s")
      case (Inl e)
      with s w show ?thesis
        by (simp add: process_reactant_def normalized_moles_spec_def reactant_try_body_def)
    next
      case (Inr mo)
      note mo = this
      show ?thesis
      proof (cases mo)
        case None
        with s w mo show ?thesis
          by (simp add: process_reactant_def normalized_moles_spec_def reactant_try_body_def)
      next
        case (Some m)
        note m = this
        show ?thesis
        proof (cases "W m")
          case (Inl e)
          with s w mo m show ?thesis
            by (simp add: process_reactant_def normalized_moles_spec_def reactant_try_body_def)
        next
          case (Inr mw)
          with s w mo m show ?thesis
            by (cases "mole_ratio d")
              (simp_all add: process_reactant_def normalized_moles_spec_def reactant_try_body_def
                py_truediv_def get_mole_ratio_def)
        qed
      qed
    qed
  qed
qed

lemma process_reactant_valid:
  "normalized_moles_spec M W d = Some v \<Longrightarrow> process_reactant M W name d = Inr v"
  using process_reactant_refines [of M W name d] by (auto split: sum.splits)

lemma process_reactant_Inr_iff:
  "process_reactant M W name d = Inr v \<longleftrightarrow> normalized_moles_spec M W d = Some v"
  using process_reactant_refines [of M W name d] by (auto split: sum.splits)

subsection \<open>The loop over the reactants\<close>

text \<open>Storing under a key that the dict does not have appends the entry.\<close>

lemma update_fresh: "k \<notin> fst ` set al \<Longrightarrow> AList.update k v al = al @ [(k, v)]"
  by (induction al) auto

lemma loop_valid:
  "map (\<lambda>r. normalized_moles_spec M W (snd r)) rs = map Some vs \<Longrightarrow> distinct (map fst rs) \<Longrightarrow>
   fst ` set acc \<inter> fst ` set rs = {} \<Longrightarrow>
   reactants_loop M W acc rs = Inr (acc @ zip (map fst rs) vs)"
proof (induction rs arbitrary: acc vs)
  case Nil
  then show ?case by simp
next
  case (Cons r rs)
  obtain name d where r: "r = (name, d)" by (cases r)
  from Cons.prems(1) obtain v vs' where vs: "vs = v # vs'"
    and v: "normalized_moles_spec M W d = Some v"
    and rest: "map (\<lambda>r. normalized_moles_spec M W (snd r)) rs = map Some vs'"
    by (cases vs) (auto simp: r)
  from Cons.prems(3) have fresh: "name \<notin> fst ` set acc" by (auto simp: r)
  have "fst ` set (acc @ [(name, v)]) \<inter> fst ` set rs = {}"
    using Cons.prems(2,3) by (auto simp: r)
  with Cons.IH [OF rest, of "acc @ [(name, v)]"] Cons.prems(2)
  have "reactants_loop M W (acc @ [(name, v)]) rs = Inr ((acc @ [(name, v)]) @ zip (map fst rs) vs')"
    by simp
  then show ?case
    by (simp add: r vs process_reactant_valid [OF v] update_fresh [OF fresh])
qed

lemma loop_error:
  "\<forall>(n, d) \<in> set pre. normalized_moles_spec M W d \<noteq> None \<Longrightarrow>
   process_reactant M W name data = Inl err \<Longrightarrow>
   reactants_loop M W acc (pre @ (name, data) # post) = Inl err"
proof (induction pre arbitrary: acc)
  case Nil
  then show ?case by simp
next
  case (Cons r pre)
  obtain n d where r: "r = (n, d)" by (cases r)
  from Cons.prems(1) obtain v where "normalized_moles_spec M W d = Some v" by (auto simp: r)
  then have "process_reactant M W n d = Inr v" by (rule process_reactant_valid)
  with Cons show ?case by (simp add: r)
qed

lemma loop_Inr_all:
  "reactants_loop M W acc rs = Inr ms \<Longrightarrow> (n, d) \<in> set rs \<Longrightarrow> \<exists>v. process_reactant M W n d = Inr v"
proof (induction rs arbitrary: acc)
  case Nil
  then show ?case by simp
next
  case (Cons r rs)
  then show ?case by (cases r) (auto split: sum.splits)
qed

subsection \<open>The minimum\<close>

text \<open>\<^verbatim>\<open>min\<close> returns the first item whose key is least: every item before it has a
  strictly greater key, every item after it a key at least as great.\<close>

lemma py_min_loop_first_min:
  "\<forall>x \<in> set (b # xs). key x = Some (f x) \<Longrightarrow>
   \<exists>pre r post. b # xs = pre @ r # post \<and> py_min_loop key b (key b) xs = Inr r \<and>
     (\<forall>p \<in> set pre. f r < f p) \<and> (\<forall>q \<in> set post. f r \<le> f q)"
proof (induction xs arbitrary: b)
  case Nil
  have "[b] = [] @ b # []" by simp
  then show ?case by (metis empty_iff list.set(1) py_min_loop.simps(1))
next
  case (Cons x xs)
  have kb: "key b = Some (f b)" and kx: "key x = Some (f x)"
    using Cons.prems by simp_all
  show ?case
  proof (cases "f x < f b")
    case True
    from Cons.prems have "\<forall>y \<in> set (x # xs). key y = Some (f y)" by simp
    from Cons.IH [OF this] obtain pre r post where
      dec: "x # xs = pre @ r # post" and res: "py_min_loop key x (key x) xs = Inr r"
      and lt: "\<forall>p \<in> set pre. f r < f p" and le: "\<forall>q \<in> set post. f r \<le> f q"
      by blast
    have "x \<in> set (pre @ r # post)" using dec by (metis list.set_intros(1))
    then have "f r \<le> f x" using lt le by auto
    with True have "f r < f b" by simp
    with lt have lt': "\<forall>p \<in> set (b # pre). f r < f p" by simp
    have "b # x # xs = (b # pre) @ r # post" using dec by simp
    moreover have "py_min_loop key b (key b) (x # xs) = Inr r"
      using True res by (simp add: kb kx py_lt_def)
    ultimately show ?thesis using lt' le by blast
  next
    case False
    from Cons.prems have "\<forall>y \<in> set (b # xs). key y = Some (f y)" by simp
    from Cons.IH [OF this] obtain pre r post where
      dec: "b # xs = pre @ r # post" and res: "py_min_loop key b (key b) xs = Inr r"
      and lt: "\<forall>p \<in> set pre. f r < f p" and le: "\<forall>q \<in> set post. f r \<le> f q"
      by blast
    have run: "py_min_loop key b (key b) (x # xs) = Inr r"
      using False res by (simp add: kb kx py_lt_def)
    show ?thesis
    proof (cases pre)
      case Nil
      with dec have "r = b" "post = xs" by simp_all
      with False le have "\<forall>q \<in> set (x # xs). f r \<le> f q" by simp
      moreover have "b # x # xs = [] @ r # (x # xs)" using \<open>r = b\<close> by simp
      ultimately show ?thesis using run by (metis empty_iff list.set(1))
    next
      case (Cons p pre')
      with dec have "p = b" and xs: "xs = pre' @ r # post" by simp_all
      with lt Cons have "f r < f b" by simp
      with False have "f r < f x" by simp
      with lt Cons \<open>p = b\<close> have "\<forall>p \<in> set (b # x # pre'). f r < f p" by simp
      moreover have "b # x # xs = (b # x # pre') @ r # post" using xs by simp
      ultimately show ?thesis using run le by blast
    qed
  qed
qed

lemma py_min_first_min:
  assumes "xs \<noteq> []" and "\<forall>x \<in> set xs. key x = Some (f x)"
  shows "\<exists>pre r post. xs = pre @ r # post \<and> py_min key xs = Inr r \<and>
     (\<forall>p \<in> set pre. f r < f p) \<and> (\<forall>q \<in> set post. f r \<le> f q)"
proof -
  from assms(1) obtain b rest where xs: "xs = b # rest" by (cases xs) auto
  with py_min_loop_first_min [of b rest key f] assms(2) show ?thesis
    by (simp add: py_min_def)
qed

lemma py_min_dict:
  assumes "ms \<noteq> []"
  shows "\<exists>k v. py_min (map_of ms) (map fst ms) = Inr k \<and> py_getitem ms k = Inr v"
proof -
  have keys: "\<forall>k \<in> set (map fst ms). map_of ms k = Some (the (map_of ms k))"
  proof
    fix k assume "k \<in> set (map fst ms)"
    then have "map_of ms k \<noteq> None" by (simp add: map_of_eq_None_iff)
    then show "map_of ms k = Some (the (map_of ms k))" by simp
  qed
  from assms have "map fst ms \<noteq> []" by simp
  from py_min_first_min [OF this keys] obtain pre r post where
    "map fst ms = pre @ r # post" and r: "py_min (map_of ms) (map fst ms) = Inr r"
    by blast
  then have "r \<in> set (map fst ms)" by simp
  with keys obtain v where "map_of ms r = Some v" by blast
  then have "py_getitem ms r = Inr v" by (simp add: py_getitem_def)
  with r show ?thesis by blast
qed

lemma py_min_zip:
  assumes "ks \<noteq> []" and "distinct ks" and "length ks = length vs"
  shows "\<exists>i < length ks. py_min (map_of (zip ks vs)) ks = Inr (ks ! i) \<and>
     py_getitem (zip ks vs) (ks ! i) = Inr (vs ! i) \<and>
     (\<forall>j < length ks. vs ! i \<le> vs ! j) \<and> (\<forall>j < i. vs ! i < vs ! j)"
proof -
  let ?key = "map_of (zip ks vs)"
  let ?f = "\<lambda>k. the (?key k)"
  have nth: "?key (ks ! j) = Some (vs ! j)" if "j < length ks" for j
    using that assms(2,3) by (simp add: map_of_zip_nth)
  have "\<forall>k \<in> set ks. ?key k = Some (?f k)"
    using nth by (auto simp: in_set_conv_nth)
  from py_min_first_min [OF assms(1) this] obtain pre r post where
    dec: "ks = pre @ r # post" and res: "py_min ?key ks = Inr r"
    and lt: "\<forall>p \<in> set pre. ?f r < ?f p" and le: "\<forall>q \<in> set post. ?f r \<le> ?f q"
    by blast
  let ?i = "length pre"
  have i: "?i < length ks" and r: "ks ! ?i = r" using dec by simp_all
  have fr: "?f r = vs ! ?i" using nth [OF i] r by simp
  have fj: "?f (ks ! j) = vs ! j" if "j < length ks" for j using nth [OF that] by simp
  have before: "vs ! ?i < vs ! j" if "j < ?i" for j
  proof -
    have "ks ! j \<in> set pre" using that dec by (simp add: nth_append)
    with lt have "?f r < ?f (ks ! j)" by blast
    with fr fj [of j] that i show ?thesis by simp
  qed
  have all: "vs ! ?i \<le> vs ! j" if "j < length ks" for j
  proof -
    consider "j < ?i" | "j = ?i" | "?i < j" by linarith
    then show ?thesis
    proof cases
      case 1 with before show ?thesis by fastforce
    next
      case 2 then show ?thesis by simp
    next
      case 3
      with that dec have "ks ! j \<in> set post"
        by (auto simp: nth_append nth_Cons split: nat.splits)
      with le have "?f r \<le> ?f (ks ! j)" by blast
      with fr fj [OF that] show ?thesis by simp
    qed
  qed
  have "py_getitem (zip ks vs) (ks ! ?i) = Inr (vs ! ?i)"
    using nth [OF i] by (simp add: py_getitem_def)
  with i r res before all show ?thesis by blast
qed

subsection \<open>The whole function\<close>

lemma resolve_product_Inr:
  "M ps = Inr (Some pm) \<Longrightarrow> W pm = Inr pw \<Longrightarrow> resolve_product M W ps = Inr pw"
  by (simp add: resolve_product_def product_try_body_def)

lemma resolve_product_unparsed:
  "M ps = Inr None \<Longrightarrow> resolve_product M W ps = Inl (ProductSmilesUnparsed ps)"
  by (simp add: resolve_product_def product_try_body_def)

lemma calculate_loop_error:
  "reactants_loop M W [] rs = Inl err \<Longrightarrow>
   calculate_theoretical_yield M W rs ps pr = Inr (Failure err)"
  by (simp add: calculate_theoretical_yield_def)


lemma calculate_product_unparsed:
  assumes "M ps = Inr None"
  shows "\<exists>err. calculate_theoretical_yield M W rs ps pr = Inr (Failure err)"
proof (cases "reactants_loop M W [] rs")
  case (Inl err)
  then show ?thesis by (simp add: calculate_theoretical_yield_def)
next
  case (Inr ms)
  show ?thesis
  proof (cases "ms = []")
    case True
    with Inr show ?thesis by (simp add: calculate_theoretical_yield_def)
  next
    case False
    from py_min_dict [OF False] obtain k v where
      "py_min (map_of ms) (map fst ms) = Inr k" and "py_getitem ms k = Inr v" by blast
    moreover have "resolve_product M W ps = Inl (ProductSmilesUnparsed ps)"
      using assms by (rule resolve_product_unparsed)
    ultimately show ?thesis using Inr False
      by (simp add: calculate_theoretical_yield_def)
  qed
qed

lemma calculate_valid:
  assumes "rs \<noteq> []" and "distinct (map fst rs)"
    and "map (\<lambda>r. normalized_moles_spec M W (snd r)) rs = map Some vs"
    and "resolve_product M W ps = Inr pw"
  shows "\<exists>i < length rs.
     calculate_theoretical_yield M W rs ps pr = Inr (Success (vs ! i * pr * pw) (fst (rs ! i))) \<and>
     (\<forall>j < length rs. vs ! i \<le> vs ! j) \<and> (\<forall>j < i. vs ! i < vs ! j)"
proof -
  let ?ks = "map fst rs"
  have len: "length ?ks = length vs"
    using assms(3) by (metis length_map)
  have loop: "reactants_loop M W [] rs = Inr (zip ?ks vs)"
    using loop_valid [OF assms(3) assms(2), of "[]"] by simp
  have ne: "zip ?ks vs \<noteq> []" using assms(1) len by (cases rs; cases vs) auto
  have keys: "map fst (zip ?ks vs) = ?ks" using len by simp
  from assms(1) have "?ks \<noteq> []" by simp
  from py_min_zip [OF this assms(2) len] obtain i where i: "i < length ?ks"
    and m: "py_min (map_of (zip ?ks vs)) ?ks = Inr (?ks ! i)"
    and g: "py_getitem (zip ?ks vs) (?ks ! i) = Inr (vs ! i)"
    and le: "\<forall>j < length ?ks. vs ! i \<le> vs ! j" and lt: "\<forall>j < i. vs ! i < vs ! j"
    by blast
  have "calculate_theoretical_yield M W rs ps pr = Inr (Success (vs ! i * pr * pw) (?ks ! i))"
    using loop ne keys m g assms(4) by (simp add: calculate_theoretical_yield_def)
  with i le lt show ?thesis by auto
qed

lemma calculate_reactant_error:
  assumes "\<forall>(n, d) \<in> set pre. normalized_moles_spec M W d \<noteq> None"
    and "process_reactant M W name data = Inl err"
  shows "calculate_theoretical_yield M W (pre @ (name, data) # post) ps pr = Inr (Failure err)"
  using loop_error [OF assms, of "[]" post] by (rule calculate_loop_error)

lemma calculate_some_reactant_error:
  assumes "(name, data) \<in> set rs" and "process_reactant M W name data = Inl err"
  shows "\<exists>err'. reactants_loop M W [] rs = Inl err'"
proof (cases "reactants_loop M W [] rs")
  case (Inl e)
  then show ?thesis by blast
next
  case (Inr ms)
  from loop_Inr_all [OF Inr assms(1)] assms(2) show ?thesis by simp
qed

lemma Min_nth:
  assumes "i < length vs" and "\<forall>j < length vs. vs ! i \<le> (vs ! j :: real)"
  shows "Min (set vs) = vs ! i"
proof (rule Min_eqI)
  show "finite (set vs)" by simp
  show "vs ! i \<in> set vs" using assms(1) by simp
  fix y assume "y \<in> set vs"
  then show "vs ! i \<le> y" using assms(2) by (auto simp: in_set_conv_nth)
qed

lemma loop_all_valid:
  "\<forall>(n, d) \<in> set rs. normalized_moles_spec M W d \<noteq> None \<Longrightarrow>
   \<exists>ms. reactants_loop M W acc rs = Inr ms \<and> (rs \<noteq> [] \<or> acc \<noteq> [] \<longrightarrow> ms \<noteq> [])"
proof (induction rs arbitrary: acc)
  case Nil
  then show ?case by simp
next
  case (Cons r rs)
  obtain n d where r: "r = (n, d)" by (cases r)
  from Cons.prems obtain v where "normalized_moles_spec M W d = Some v" by (auto simp: r)
  then have p: "process_reactant M W n d = Inr v" by (rule process_reactant_valid)
  from Cons.prems have "\<forall>(n, d) \<in> set rs. normalized_moles_spec M W d \<noteq> None" by simp
  from Cons.IH [OF this, of "AList.update n v acc"] p show ?case by (simp add: r)
qed

lemma calculate_valid_product_unparsed:
  assumes "rs \<noteq> []" and "\<forall>(n, d) \<in> set rs. normalized_moles_spec M W d \<noteq> None"
    and "M ps = Inr None"
  shows "calculate_theoretical_yield M W rs ps pr = Inr (Failure (ProductSmilesUnparsed ps))"
proof -
  from loop_all_valid [OF assms(2), of "[]"] assms(1) obtain ms where
    loop: "reactants_loop M W [] rs = Inr ms" and ne: "ms \<noteq> []" by blast
  from py_min_dict [OF ne] obtain k v where
    "py_min (map_of ms) (map fst ms) = Inr k" and "py_getitem ms k = Inr v" by blast
  moreover have "resolve_product M W ps = Inl (ProductSmilesUnparsed ps)"
    using assms(3) by (rule resolve_product_unparsed)
  ultimately show ?thesis using loop ne by (simp add: calculate_theoretical_yield_def)
qed

lemma process_reactant_missing:
  "smiles d = None \<or> weight_g d = None \<or> smiles d = Some [] \<or> weight_g d = Some 0 \<Longrightarrow>
   process_reactant M W name d = Inl (InvalidReactantData name)"
  by (auto simp: process_reactant_def split: option.splits)

lemma process_reactant_unparsed:
  "smiles d = Some s \<Longrightarrow> s \<noteq> [] \<Longrightarrow> weight_g d = Some w \<Longrightarrow> w \<noteq> 0 \<Longrightarrow> M s = Inr None \<Longrightarrow>
   process_reactant M W name d = Inl (ReactantSmilesUnparsed name s)"
  by (simp add: process_reactant_def reactant_try_body_def)

lemma process_reactant_zero_weight:
  "smiles d = Some s \<Longrightarrow> s \<noteq> [] \<Longrightarrow> weight_g d = Some w \<Longrightarrow> w \<noteq> 0 \<Longrightarrow>
   M s = Inr (Some m) \<Longrightarrow> W m = Inr 0 \<Longrightarrow>
   process_reactant M W name d = Inl (ReactantException name ZeroDivisionError)"
  by (simp add: process_reactant_def reactant_try_body_def py_truediv_def)

lemma reactants_loop_same_outcome:
  "process_reactant M W name d = process_reactant M W name d' \<Longrightarrow>
   reactants_loop M W acc (pre @ (name, d) # post) =
   reactants_loop M W acc (pre @ (name, d') # post)"
  by (induction pre arbitrary: acc) (auto split: sum.splits)

lemma calculate_same_outcome:
  assumes "process_reactant M W name d = process_reactant M W name d'"
  shows "calculate_theoretical_yield M W (pre @ (name, d) # post) ps pr =
         calculate_theoretical_yield M W (pre @ (name, d') # post) ps pr"
proof -
  have l: "reactants_loop M W [] (pre @ (name, d) # post) =
      reactants_loop M W [] (pre @ (name, d') # post)"
    using assms by (rule reactants_loop_same_outcome)
  show ?thesis unfolding calculate_theoretical_yield_def l by (rule refl)
qed

subsection \<open>Arguments of other types\<close>






subsection \<open>The example reactants\<close>

lemma example_ethanol:
  "normalized_moles_spec example_MolFromSmiles example_CalcExactMolWt ethanol_46g =
     Some (46 / 46.041864811)"
  by (simp add: normalized_moles_spec_def example_MolFromSmiles_def ethanol_46g_def
      get_mole_ratio_def)

lemma example_water:
  "normalized_moles_spec example_MolFromSmiles example_CalcExactMolWt water_9g =
     Some (9 / 18.010564683)"
  by (simp add: normalized_moles_spec_def example_MolFromSmiles_def water_9g_def
      get_mole_ratio_def)

lemma example_water_ratio_3:
  "normalized_moles_spec example_MolFromSmiles example_CalcExactMolWt water_15g_ratio_3 =
     Some ((15 / 18.010564683) / 3)"
  by (simp add: normalized_moles_spec_def example_MolFromSmiles_def water_15g_ratio_3_def)

section \<open>The claims\<close>

text \<open>
  \<^bold>\<open>C1, as stated, fails.\<close> Both reactants have a SMILES that resolves, a positive mass and a
  positive ratio, and the product resolves, but the second resolves to a structure of weight
  zero: the division of line 43 raises, and the function returns the error dict of line 47
  instead of a yield.
\<close>

theorem theoretical_yield_zero_weight_counterexample:
  "[(''ethanol'', ethanol_46g), (''X'', wildcard_5g)] \<noteq> [] \<and>
   smiles ethanol_46g = Some ''CCO'' \<and> example_MolFromSmiles ''CCO'' = Inr (Some Ethanol) \<and>
   weight_g ethanol_46g = Some 46 \<and> (0::real) < 46 \<and>
   mole_ratio ethanol_46g = Some 1 \<and> (0::real) < 1 \<and>
   smiles wildcard_5g = Some ''*'' \<and> example_MolFromSmiles ''*'' = Inr (Some Wildcard) \<and>
   weight_g wildcard_5g = Some 5 \<and> (0::real) < 5 \<and>
   mole_ratio wildcard_5g = Some 1 \<and>
   example_MolFromSmiles ''O'' = Inr (Some Water) \<and>
   calculate_theoretical_yield example_MolFromSmiles example_CalcExactMolWt
     [(''ethanol'', ethanol_46g), (''X'', wildcard_5g)] ''O'' 2 =
     Inr (Failure (ReactantException ''X'' ZeroDivisionError))"
  by (simp add: calculate_theoretical_yield_def process_reactant_def reactant_try_body_def
      example_MolFromSmiles_def ethanol_46g_def wildcard_5g_def py_truediv_def get_mole_ratio_def)

text \<open>
  \<^bold>\<open>C1, amended.\<close> Take a non-empty reactant mapping with distinct names in which every
  reactant has a normalized mole count in the sense of \<open>normalized_moles_spec\<close>: identifier and
  mass present, the identifier resolved by the library to a structure whose weight the library
  returns and which is not zero, and mass and ratio not zero; that covers every reactant with
  a positive mass, a positive ratio and a weight that is not zero. Let \<open>vs\<close> be those counts,
  \<open>(mass / weight) / ratio\<close>, and let the product resolve to a structure of weight \<open>pw\<close>. Then
  the function returns a success dict whose yield is \<open>Min (set vs) * product ratio * pw\<close>.
  For a single reactant with ratio 1 and product ratio 1 the yield is
  \<open>(mass / weight) * pw\<close>.
\<close>

theorem theoretical_yield_formula:
  "(reactants \<noteq> [] \<and> distinct (map fst reactants) \<and>
    map (\<lambda>r. normalized_moles_spec M W (snd r)) reactants = map Some vs \<and>
    M product_smiles = Inr (Some pm) \<and> W pm = Inr pw
    \<longrightarrow> (\<exists>name. calculate_theoretical_yield M W reactants product_smiles pr =
          Inr (Success (Min (set vs) * pr * pw) name))) \<and>
   (s \<noteq> [] \<and> w \<noteq> 0 \<and> M s = Inr (Some m) \<and> W m = Inr mw \<and> mw \<noteq> 0 \<and>
    M product_smiles = Inr (Some pm) \<and> W pm = Inr pw
    \<longrightarrow> calculate_theoretical_yield M W
          [(n, \<lparr>smiles = Some s, weight_g = Some w, mole_ratio = Some 1\<rparr>)] product_smiles 1 =
        Inr (Success ((w / mw) * pw) n))"
proof (intro conjI impI)
  assume a: "reactants \<noteq> [] \<and> distinct (map fst reactants) \<and>
    map (\<lambda>r. normalized_moles_spec M W (snd r)) reactants = map Some vs \<and>
    M product_smiles = Inr (Some pm) \<and> W pm = Inr pw"
  then have p: "resolve_product M W product_smiles = Inr pw"
    by (simp add: resolve_product_Inr)
  from a have len: "length reactants = length vs" by (metis length_map)
  from a calculate_valid [OF _ _ _ p, of reactants vs pr] obtain i where
    i: "i < length reactants"
    and r: "calculate_theoretical_yield M W reactants product_smiles pr =
      Inr (Success (vs ! i * pr * pw) (fst (reactants ! i)))"
    and le: "\<forall>j < length reactants. vs ! i \<le> vs ! j"
    by blast
  have "Min (set vs) = vs ! i" using i le len by (simp add: Min_nth)
  with r show "\<exists>name. calculate_theoretical_yield M W reactants product_smiles pr =
          Inr (Success (Min (set vs) * pr * pw) name)" by simp
next
  let ?d = "\<lparr>smiles = Some s, weight_g = Some w, mole_ratio = Some 1\<rparr>"
  assume a: "s \<noteq> [] \<and> w \<noteq> 0 \<and> M s = Inr (Some m) \<and> W m = Inr mw \<and> mw \<noteq> 0 \<and>
    M product_smiles = Inr (Some pm) \<and> W pm = Inr pw"
  then have p: "resolve_product M W product_smiles = Inr pw"
    by (simp add: resolve_product_Inr)
  from a have v: "map (\<lambda>r. normalized_moles_spec M W (snd r)) [(n, ?d)] = map Some [w / mw]"
    by (simp add: normalized_moles_spec_def get_mole_ratio_def)
  from calculate_valid [OF _ _ v p, of 1]
  show "calculate_theoretical_yield M W [(n, ?d)] product_smiles 1 = Inr (Success ((w / mw) * pw) n)"
    by simp
qed

text \<open>The theorem at ethanol (46 g, ratio 1) and water (15 g, ratio 3): the minimum is the
  count of water, 15 g divided by its weight and by 3; and at ethanol alone. The last line
  runs the function on the first example.\<close>

theorem theoretical_yield_formula_witness:
  "([(''ethanol'', ethanol_46g), (''water'', water_15g_ratio_3)] \<noteq> [] \<and>
    distinct (map fst [(''ethanol'', ethanol_46g), (''water'', water_15g_ratio_3)]) \<and>
    map (\<lambda>r. normalized_moles_spec example_MolFromSmiles example_CalcExactMolWt (snd r))
      [(''ethanol'', ethanol_46g), (''water'', water_15g_ratio_3)] =
      map Some [46 / 46.041864811, (15 / 18.010564683) / 3] \<and>
    example_MolFromSmiles ''O'' = Inr (Some Water) \<and>
    example_CalcExactMolWt Water = Inr 18.010564683) \<and>
   (\<exists>name. calculate_theoretical_yield example_MolFromSmiles example_CalcExactMolWt
      [(''ethanol'', ethanol_46g), (''water'', water_15g_ratio_3)] ''O'' 2 =
      Inr (Success (((15 / 18.010564683) / 3) * 2 * 18.010564683) name)) \<and>
   (''CCO'' \<noteq> [] \<and> (46::real) \<noteq> 0 \<and> example_MolFromSmiles ''CCO'' = Inr (Some Ethanol) \<and>
    example_CalcExactMolWt Ethanol = Inr 46.041864811 \<and> (46.041864811::real) \<noteq> 0) \<and>
   calculate_theoretical_yield example_MolFromSmiles example_CalcExactMolWt
     [(''ethanol'', \<lparr>smiles = Some ''CCO'', weight_g = Some 46, mole_ratio = Some 1\<rparr>)] ''O'' 1 =
     Inr (Success ((46 / 46.041864811) * 18.010564683) ''ethanol'') \<and>
   calculate_theoretical_yield example_MolFromSmiles example_CalcExactMolWt
     [(''ethanol'', ethanol_46g), (''water'', water_15g_ratio_3)] ''O'' 2 =
     Inr (Success (((15 / 18.010564683) / 3) * 2 * 18.010564683) ''water'')"
proof -
  let ?rs = "[(''ethanol'', ethanol_46g), (''water'', water_15g_ratio_3)]"
  have run: "calculate_theoretical_yield example_MolFromSmiles example_CalcExactMolWt ?rs ''O'' 2 =
     Inr (Success (((15 / 18.010564683) / 3) * 2 * 18.010564683) ''water'')"
    by (simp add: calculate_theoretical_yield_def process_reactant_def reactant_try_body_def
        resolve_product_def product_try_body_def example_MolFromSmiles_def ethanol_46g_def
        water_9g_def water_15g_ratio_3_def py_truediv_def get_mole_ratio_def py_min_def
        py_lt_def py_getitem_def)
  let ?vs = "[46 / 46.041864811, (15 / 18.010564683) / (3::real)]"
  have h1: "?rs \<noteq> [] \<and> distinct (map fst ?rs) \<and>
    map (\<lambda>r. normalized_moles_spec example_MolFromSmiles example_CalcExactMolWt (snd r)) ?rs =
      map Some ?vs \<and>
    example_MolFromSmiles ''O'' = Inr (Some Water) \<and>
    example_CalcExactMolWt Water = Inr 18.010564683"
    by (simp add: example_MolFromSmiles_def example_ethanol example_water_ratio_3)
  have h2: "''CCO'' \<noteq> [] \<and> (46::real) \<noteq> 0 \<and> example_MolFromSmiles ''CCO'' = Inr (Some Ethanol) \<and>
    example_CalcExactMolWt Ethanol = Inr 46.041864811 \<and> (46.041864811::real) \<noteq> 0 \<and>
    example_MolFromSmiles ''O'' = Inr (Some Water) \<and>
    example_CalcExactMolWt Water = Inr 18.010564683"
    by (simp add: example_MolFromSmiles_def)
  note t = theoretical_yield_formula [where M = example_MolFromSmiles
      and W = example_CalcExactMolWt and product_smiles = "''O''" and pm = Water
      and pw = "18.010564683" and s = "''CCO''" and w = 46 and m = Ethanol
      and mw = "46.041864811" and n = "''ethanol''"
      and reactants = ?rs and vs = ?vs and pr = 2]
  have mn: "Min (set ?vs) = (15 / 18.010564683) / 3" by simp
  from t h1 have "\<exists>name. calculate_theoretical_yield example_MolFromSmiles example_CalcExactMolWt
      ?rs ''O'' 2 = Inr (Success (Min (set ?vs) * 2 * 18.010564683) name)"
    by blast
  then have c1: "\<exists>name. calculate_theoretical_yield example_MolFromSmiles example_CalcExactMolWt
      ?rs ''O'' 2 = Inr (Success (((15 / 18.010564683) / 3) * 2 * 18.010564683) name)"
    unfolding mn .
  from t h2 have c2: "calculate_theoretical_yield example_MolFromSmiles example_CalcExactMolWt
     [(''ethanol'', \<lparr>smiles = Some ''CCO'', weight_g = Some 46, mole_ratio = Some 1\<rparr>)] ''O'' 1 =
     Inr (Success ((46 / 46.041864811) * 18.010564683) ''ethanol'')"
    by blast
  from h1 h2 c1 c2 run show ?thesis by blast
qed

text \<open>
  \<^bold>\<open>C2.\<close> For a reactant that passes the check of line 34 and whose SMILES resolves to a
  structure of weight \<open>mw\<close>, the iteration computes \<open>(mass / mw) / ratio\<close>, where the
  ratio is 1 when the key \<^verbatim>\<open>mole_ratio\<close> is absent, and stores that number under the reactant's
  name. The weight and the ratio are not zero, so that both quotients exist.
\<close>

theorem normalized_moles_computation:
  assumes "smiles d = Some s" and "s \<noteq> []" and "weight_g d = Some w" and "w \<noteq> 0"
    and "M s = Inr (Some m)" and "W m = Inr mw" and "mw \<noteq> 0" and "mole_ratio d \<noteq> Some 0"
  shows "process_reactant M W name d =
           Inr ((w / mw) / (case mole_ratio d of None \<Rightarrow> 1 | Some ratio \<Rightarrow> ratio)) \<and>
         reactants_loop M W moles ((name, d) # rest) =
           reactants_loop M W
             (AList.update name ((w / mw) / (case mole_ratio d of None \<Rightarrow> 1 | Some ratio \<Rightarrow> ratio)) moles)
             rest"
proof -
  have "get_mole_ratio d \<noteq> 0" using assms(8) by (auto simp: get_mole_ratio_def split: option.splits)
  then have "process_reactant M W name d = Inr ((w / mw) / get_mole_ratio d)"
    using assms by (simp add: process_reactant_def reactant_try_body_def py_truediv_def)
  then show ?thesis by (simp add: get_mole_ratio_def)
qed

text \<open>The theorem at a reactant without the key \<^verbatim>\<open>mole_ratio\<close>: the divisor is 1.\<close>

theorem normalized_moles_computation_witness:
  "(smiles water_9g_no_ratio = Some ''O'' \<and> ''O'' \<noteq> [] \<and> weight_g water_9g_no_ratio = Some 9 \<and>
    (9::real) \<noteq> 0 \<and> example_MolFromSmiles ''O'' = Inr (Some Water) \<and>
    example_CalcExactMolWt Water = Inr 18.010564683 \<and> (18.010564683::real) \<noteq> 0 \<and>
    mole_ratio water_9g_no_ratio \<noteq> Some 0 \<and> mole_ratio water_9g_no_ratio = None) \<and>
   process_reactant example_MolFromSmiles example_CalcExactMolWt ''water'' water_9g_no_ratio =
     Inr ((9 / 18.010564683) / 1) \<and>
   reactants_loop example_MolFromSmiles example_CalcExactMolWt [] [(''water'', water_9g_no_ratio)] =
     Inr [(''water'', (9 / 18.010564683) / 1)]"
proof -
  have h: "smiles water_9g_no_ratio = Some ''O''" "''O'' \<noteq> []"
    "weight_g water_9g_no_ratio = Some 9" "(9::real) \<noteq> 0"
    "example_MolFromSmiles ''O'' = Inr (Some Water)"
    "example_CalcExactMolWt Water = Inr 18.010564683" "(18.010564683::real) \<noteq> 0"
    "mole_ratio water_9g_no_ratio \<noteq> Some 0" "mole_ratio water_9g_no_ratio = None"
    by (simp_all add: water_9g_no_ratio_def example_MolFromSmiles_def)
  note t = normalized_moles_computation [where M = example_MolFromSmiles
      and W = example_CalcExactMolWt and d = water_9g_no_ratio and s = "''O''" and w = 9
      and m = Water and mw = "18.010564683" and name = "''water''" and moles = "[]"
      and rest = "[]"]
  from t [OF h(1-8)] h show ?thesis by simp
qed

text \<open>
  \<^bold>\<open>C3.\<close> For a valid non-empty reactant mapping (as in C1) the reported limiting reactant is
  the one at some position \<open>i\<close> of the iteration order whose normalized mole count is the
  minimum of all counts, and every reactant before position \<open>i\<close> has a strictly greater count:
  among several minima the first in iteration order is reported. Whenever reactant \<open>a\<close> has a
  strictly smaller count than reactant \<open>b\<close>, the limiting reactant is not \<open>b\<close>, and in a
  mapping of two reactants it is \<open>a\<close>. The raw mass of \<open>b\<close> enters only through its count.
\<close>

theorem limiting_reactant_is_first_minimum:
  assumes "reactants \<noteq> []" and "distinct (map fst reactants)"
    and "map (\<lambda>r. normalized_moles_spec M W (snd r)) reactants = map Some vs"
    and "M product_smiles = Inr (Some pm)" and "W pm = Inr pw"
  shows "\<exists>i y. i < length reactants \<and>
     calculate_theoretical_yield M W reactants product_smiles pr =
       Inr (Success y (fst (reactants ! i))) \<and>
     vs ! i = Min (set vs) \<and>
     (\<forall>j < i. vs ! i < vs ! j) \<and>
     (\<forall>a < length reactants. \<forall>b < length reactants. vs ! a < vs ! b \<longrightarrow>
        fst (reactants ! i) \<noteq> fst (reactants ! b) \<and>
        (length reactants = 2 \<longrightarrow> fst (reactants ! i) = fst (reactants ! a)))"
proof -
  have p: "resolve_product M W product_smiles = Inr pw"
    using assms(4,5) by (rule resolve_product_Inr)
  have len: "length reactants = length vs" using assms(3) by (metis length_map)
  from calculate_valid [OF assms(1-3) p, of pr] obtain i where
    i: "i < length reactants"
    and r: "calculate_theoretical_yield M W reactants product_smiles pr =
      Inr (Success (vs ! i * pr * pw) (fst (reactants ! i)))"
    and le: "\<forall>j < length reactants. vs ! i \<le> vs ! j"
    and lt: "\<forall>j < i. vs ! i < vs ! j"
    by blast
  have mn: "vs ! i = Min (set vs)" using i le len by (simp add: Min_nth)
  have two: "fst (reactants ! i) \<noteq> fst (reactants ! b) \<and>
        (length reactants = 2 \<longrightarrow> fst (reactants ! i) = fst (reactants ! a))"
    if a: "a < length reactants" and b: "b < length reactants" and ab: "vs ! a < vs ! b" for a b
  proof -
    from le a have "vs ! i \<le> vs ! a" by blast
    with ab have ib: "i \<noteq> b" by auto
    have "map fst reactants ! i \<noteq> map fst reactants ! b"
      using assms(2) i b ib by (simp add: nth_eq_iff_index_eq del: nth_map)
    then have ne: "fst (reactants ! i) \<noteq> fst (reactants ! b)" using i b by simp
    have "i = a" if "length reactants = 2"
    proof -
      from ab have "a \<noteq> b" by auto
      with that i a b ib show ?thesis by linarith
    qed
    with ne show ?thesis by blast
  qed
  from i r mn lt two show ?thesis by blast
qed

text \<open>The theorem at two examples. Water B (9 g, ratio 1) before water A (15 g, ratio 3):
  A has the greater mass and comes second, but the smaller count, and is reported. Two equal
  counts: the first in iteration order is reported. The last line runs the function on the
  first example.\<close>

theorem limiting_reactant_is_first_minimum_witness:
  "(distinct (map fst [(''B'', water_9g), (''A'', water_15g_ratio_3)]) \<and>
    map (\<lambda>r. normalized_moles_spec example_MolFromSmiles example_CalcExactMolWt (snd r))
      [(''B'', water_9g), (''A'', water_15g_ratio_3)] =
      map Some [9 / 18.010564683, (15 / 18.010564683) / 3] \<and>
    example_MolFromSmiles ''O'' = Inr (Some Water) \<and>
    example_CalcExactMolWt Water = Inr 18.010564683 \<and>
    (15 / 18.010564683) / 3 < 9 / (18.010564683::real)) \<and>
   (\<exists>y. calculate_theoretical_yield example_MolFromSmiles example_CalcExactMolWt
      [(''B'', water_9g), (''A'', water_15g_ratio_3)] ''O'' 1 = Inr (Success y ''A'')) \<and>
   (distinct (map fst [(''first'', water_9g), (''second'', water_9g)]) \<and>
    map (\<lambda>r. normalized_moles_spec example_MolFromSmiles example_CalcExactMolWt (snd r))
      [(''first'', water_9g), (''second'', water_9g)] =
      map Some [9 / 18.010564683, 9 / 18.010564683]) \<and>
   (\<exists>y. calculate_theoretical_yield example_MolFromSmiles example_CalcExactMolWt
      [(''first'', water_9g), (''second'', water_9g)] ''O'' 1 = Inr (Success y ''first'')) \<and>
   calculate_theoretical_yield example_MolFromSmiles example_CalcExactMolWt
     [(''B'', water_9g), (''A'', water_15g_ratio_3)] ''O'' 1 =
     Inr (Success (((15 / 18.010564683) / 3) * 1 * 18.010564683) ''A'')"
proof -
  let ?rs = "[(''B'', water_9g), (''A'', water_15g_ratio_3)]"
  have run: "calculate_theoretical_yield example_MolFromSmiles example_CalcExactMolWt ?rs ''O'' 1 =
     Inr (Success (((15 / 18.010564683) / 3) * 1 * 18.010564683) ''A'')"
    by (simp add: calculate_theoretical_yield_def process_reactant_def reactant_try_body_def
        resolve_product_def product_try_body_def example_MolFromSmiles_def ethanol_46g_def
        water_9g_def water_15g_ratio_3_def py_truediv_def get_mole_ratio_def py_min_def
        py_lt_def py_getitem_def)
  let ?vs = "[9 / 18.010564683, (15 / 18.010564683) / (3::real)]"
  let ?ts = "[(''first'', water_9g), (''second'', water_9g)]"
  let ?us = "[9 / 18.010564683, 9 / (18.010564683::real)]"
  have p: "example_MolFromSmiles ''O'' = Inr (Some Water)"
    "example_CalcExactMolWt Water = Inr 18.010564683"
    by (simp_all add: example_MolFromSmiles_def)
  have h: "?rs \<noteq> []" "distinct (map fst ?rs)"
    "map (\<lambda>r. normalized_moles_spec example_MolFromSmiles example_CalcExactMolWt (snd r)) ?rs =
      map Some ?vs"
    by (simp_all add: example_water example_water_ratio_3)
  have g: "?ts \<noteq> []" "distinct (map fst ?ts)"
    "map (\<lambda>r. normalized_moles_spec example_MolFromSmiles example_CalcExactMolWt (snd r)) ?ts =
      map Some ?us"
    by (simp_all add: example_water)
  have lt: "(15 / 18.010564683) / 3 < 9 / (18.010564683::real)" by simp
  then have lt': "?vs ! 1 < ?vs ! 0" by simp
  note t = limiting_reactant_is_first_minimum [where M = example_MolFromSmiles
      and W = example_CalcExactMolWt and reactants = ?rs and vs = ?vs
      and product_smiles = "''O''" and pm = Water and pw = "18.010564683" and pr = 1]
  from t [OF h p] obtain i y where
    r: "calculate_theoretical_yield example_MolFromSmiles example_CalcExactMolWt ?rs ''O'' 1 =
       Inr (Success y (fst (?rs ! i)))"
    and two: "\<forall>a < length ?rs. \<forall>b < length ?rs. ?vs ! a < ?vs ! b \<longrightarrow>
        fst (?rs ! i) \<noteq> fst (?rs ! b) \<and> (length ?rs = 2 \<longrightarrow> fst (?rs ! i) = fst (?rs ! a))"
    by blast
  have "(1::nat) < length ?rs" "(0::nat) < length ?rs" by simp_all
  with two lt' have "length ?rs = 2 \<longrightarrow> fst (?rs ! i) = fst (?rs ! 1)" by blast
  then have "fst (?rs ! i) = ''A''" by simp
  with r have c1: "\<exists>y. calculate_theoretical_yield example_MolFromSmiles example_CalcExactMolWt
      ?rs ''O'' 1 = Inr (Success y ''A'')" by auto
  note u = limiting_reactant_is_first_minimum [where M = example_MolFromSmiles
      and W = example_CalcExactMolWt and reactants = ?ts and vs = ?us
      and product_smiles = "''O''" and pm = Water and pw = "18.010564683" and pr = 1]
  from u [OF g p] obtain k z where k: "k < length ?ts"
    and r2: "calculate_theoretical_yield example_MolFromSmiles example_CalcExactMolWt ?ts ''O'' 1 =
       Inr (Success z (fst (?ts ! k)))"
    and first: "\<forall>j < k. ?us ! k < ?us ! j"
    by blast
  have "k = 0"
  proof (rule ccontr)
    assume "k \<noteq> 0"
    with k have "k = 1" by simp
    with first have "?us ! 1 < ?us ! 0" by blast
    then show False by simp
  qed
  with r2 have c2: "\<exists>y. calculate_theoretical_yield example_MolFromSmiles example_CalcExactMolWt
      ?ts ''O'' 1 = Inr (Success y ''first'')" by auto
  from h g p lt c1 c2 run show ?thesis by blast
qed

text \<open>
  \<^bold>\<open>C4.\<close> For the empty reactant mapping, whatever the product SMILES, the product ratio and
  the library's answers, the function returns the error dict of line 51, which is of the
  kind NoReactants. The result is \<open>Inr\<close>: no exception leaves the function.
\<close>

theorem empty_mapping_no_reactants:
  "calculate_theoretical_yield M W [] product_smiles pr = Inr (Failure NoValidReactants) \<and>
   kind_of NoValidReactants = NoReactants"
  by (simp add: calculate_theoretical_yield_def)

text \<open>The theorem at the example resolver.\<close>

theorem empty_mapping_no_reactants_witness:
  "calculate_theoretical_yield example_MolFromSmiles example_CalcExactMolWt [] ''O'' 1 =
     Inr (Failure NoValidReactants) \<and>
   kind_of NoValidReactants = NoReactants"
  by (rule empty_mapping_no_reactants)

text \<open>
  \<^bold>\<open>C5, as stated, fails.\<close> With an empty reactant mapping and a product SMILES that the
  library cannot parse, the function returns the error of line 51 (kind NoReactants) before
  it looks at the product: the result is not of the kind ParseFailure.
\<close>

theorem parse_failure_counterexample:
  "example_MolFromSmiles ''not a smiles'' = Inr None \<and>
   calculate_theoretical_yield example_MolFromSmiles example_CalcExactMolWt [] ''not a smiles'' 1 =
     Inr (Failure NoValidReactants) \<and>
   kind_of NoValidReactants \<noteq> ParseFailure"
  by (simp add: example_MolFromSmiles_def calculate_theoretical_yield_def)

text \<open>
  \<^bold>\<open>C5, amended.\<close> If the SMILES of some reactant, or of the product, does not resolve to a
  structure, the function returns an error dict and never a success. The error is of the kind
  ParseFailure when the parse failure is the first fault that the function meets: for a
  reactant whose identifier and mass pass the check of line 34, when every reactant before it
  in iteration order is valid; for the product, when the mapping is not empty and every
  reactant is valid. A parse failure of one reactant ends the calculation, whatever follows
  it in the mapping.
\<close>

theorem parse_failure_aborts:
  "(((\<exists>name d s. (name, d) \<in> set reactants \<and> smiles d = Some s \<and> M s = Inr None) \<or>
     M product_smiles = Inr None)
    \<longrightarrow> (\<exists>err. calculate_theoretical_yield M W reactants product_smiles pr = Inr (Failure err))) \<and>
   ((\<forall>(n', d') \<in> set pre. normalized_moles_spec M W d' \<noteq> None) \<and>
    smiles d = Some s \<and> s \<noteq> [] \<and> weight_g d = Some w \<and> w \<noteq> 0 \<and> M s = Inr None
    \<longrightarrow> calculate_theoretical_yield M W (pre @ (name, d) # post) product_smiles pr =
          Inr (Failure (ReactantSmilesUnparsed name s)) \<and>
        kind_of (ReactantSmilesUnparsed name s) = ParseFailure) \<and>
   (reactants \<noteq> [] \<and> (\<forall>(n', d') \<in> set reactants. normalized_moles_spec M W d' \<noteq> None) \<and>
    M product_smiles = Inr None
    \<longrightarrow> calculate_theoretical_yield M W reactants product_smiles pr =
          Inr (Failure (ProductSmilesUnparsed product_smiles)) \<and>
        kind_of (ProductSmilesUnparsed product_smiles) = ParseFailure)"
proof (intro conjI impI)
  assume "(\<exists>name d s. (name, d) \<in> set reactants \<and> smiles d = Some s \<and> M s = Inr None) \<or>
     M product_smiles = Inr None"
  then show "\<exists>err. calculate_theoretical_yield M W reactants product_smiles pr = Inr (Failure err)"
  proof
    assume "\<exists>name d s. (name, d) \<in> set reactants \<and> smiles d = Some s \<and> M s = Inr None"
    then obtain name d s where mem: "(name, d) \<in> set reactants"
      and s: "smiles d = Some s" and un: "M s = Inr None" by blast
    have "normalized_moles_spec M W d = None"
      using s un by (simp add: normalized_moles_spec_def split: option.splits)
    then obtain err where "process_reactant M W name d = Inl err"
      using process_reactant_Inr_iff [of M W name d] by (cases "process_reactant M W name d") auto
    from calculate_some_reactant_error [OF mem this] obtain err' where
      "reactants_loop M W [] reactants = Inl err'" by blast
    then show ?thesis using calculate_loop_error by blast
  next
    assume "M product_smiles = Inr None"
    then show ?thesis by (rule calculate_product_unparsed)
  qed
next
  assume a: "(\<forall>(n', d') \<in> set pre. normalized_moles_spec M W d' \<noteq> None) \<and>
    smiles d = Some s \<and> s \<noteq> [] \<and> weight_g d = Some w \<and> w \<noteq> 0 \<and> M s = Inr None"
  then have "smiles d = Some s" "s \<noteq> []" "weight_g d = Some w" "w \<noteq> 0" "M s = Inr None"
    by simp_all
  then have "process_reactant M W name d = Inl (ReactantSmilesUnparsed name s)"
    by (rule process_reactant_unparsed)
  with a show "calculate_theoretical_yield M W (pre @ (name, d) # post) product_smiles pr =
          Inr (Failure (ReactantSmilesUnparsed name s))"
    by (intro calculate_reactant_error) simp_all
next
  assume "reactants \<noteq> [] \<and> (\<forall>(n', d') \<in> set reactants. normalized_moles_spec M W d' \<noteq> None) \<and>
    M product_smiles = Inr None"
  then show "calculate_theoretical_yield M W reactants product_smiles pr =
          Inr (Failure (ProductSmilesUnparsed product_smiles))"
    by (intro calculate_valid_product_unparsed) simp_all
qed simp_all

text \<open>The theorem at an example: ethanol, then a reactant with an unparsable SMILES, then
  water; and ethanol alone with an unparsable product.\<close>

theorem parse_failure_aborts_witness:
  "(example_MolFromSmiles ''not a smiles'' = Inr None \<and>
    normalized_moles_spec example_MolFromSmiles example_CalcExactMolWt ethanol_46g \<noteq> None \<and>
    smiles unparsed_5g = Some ''not a smiles'' \<and> ''not a smiles'' \<noteq> [] \<and>
    weight_g unparsed_5g = Some 5 \<and> (5::real) \<noteq> 0 \<and>
    [(''ethanol'', ethanol_46g)] \<noteq> []) \<and>
   calculate_theoretical_yield example_MolFromSmiles example_CalcExactMolWt
     ([(''ethanol'', ethanol_46g)] @ (''A'', unparsed_5g) # [(''water'', water_9g)]) ''not a smiles'' 1 =
     Inr (Failure (ReactantSmilesUnparsed ''A'' ''not a smiles'')) \<and>
   calculate_theoretical_yield example_MolFromSmiles example_CalcExactMolWt
     [(''ethanol'', ethanol_46g)] ''not a smiles'' 1 =
     Inr (Failure (ProductSmilesUnparsed ''not a smiles''))"
proof -
  have v: "normalized_moles_spec example_MolFromSmiles example_CalcExactMolWt ethanol_46g \<noteq> None"
    by (simp add: example_ethanol del: not_None_eq)
  have h: "example_MolFromSmiles ''not a smiles'' = Inr None \<and>
    (\<forall>(n', d') \<in> set [(''ethanol'', ethanol_46g)].
       normalized_moles_spec example_MolFromSmiles example_CalcExactMolWt d' \<noteq> None) \<and>
    smiles unparsed_5g = Some ''not a smiles'' \<and> ''not a smiles'' \<noteq> [] \<and>
    weight_g unparsed_5g = Some 5 \<and> (5::real) \<noteq> 0 \<and>
    [(''ethanol'', ethanol_46g)] \<noteq> []"
    by (simp add: example_MolFromSmiles_def unparsed_5g_def example_ethanol del: not_None_eq)
  note t = parse_failure_aborts [where M = example_MolFromSmiles and W = example_CalcExactMolWt
      and reactants = "[(''ethanol'', ethanol_46g)]" and product_smiles = "''not a smiles''"
      and pr = 1 and pre = "[(''ethanol'', ethanol_46g)]" and name = "''A''" and d = unparsed_5g
      and s = "''not a smiles''" and w = 5 and post = "[(''water'', water_9g)]"]
  from t h v show ?thesis by blast
qed

text \<open>
  \<^bold>\<open>C6, as stated, fails.\<close> Reactant B has no mass, but reactant A before it has a SMILES
  that the library cannot parse: the function returns the error of line 40 for A, of the kind
  ParseFailure, and the description names A, not B.
\<close>

theorem missing_field_counterexample:
  "weight_g \<lparr>smiles = Some ''O'', weight_g = None, mole_ratio = Some 1\<rparr> = None \<and>
   calculate_theoretical_yield example_MolFromSmiles example_CalcExactMolWt
     [(''A'', \<lparr>smiles = Some ''not a smiles'', weight_g = Some 5, mole_ratio = Some 1\<rparr>),
      (''B'', \<lparr>smiles = Some ''O'', weight_g = None, mole_ratio = Some 1\<rparr>)] ''O'' 1 =
     Inr (Failure (ReactantSmilesUnparsed ''A'' ''not a smiles'')) \<and>
   kind_of (ReactantSmilesUnparsed ''A'' ''not a smiles'') \<noteq> MissingField"
  by (simp add: example_MolFromSmiles_def calculate_theoretical_yield_def process_reactant_def
      reactant_try_body_def)

text \<open>
  \<^bold>\<open>C6, amended.\<close> If the SMILES or the mass of some reactant is absent, the loop over the
  reactants returns an error dict, and the function returns that same dict for every product
  SMILES and product ratio: the product is never resolved. When every reactant before that
  one in iteration order is valid, the error is the one of line 35, of the kind MissingField,
  and its description contains the reactant's name.
\<close>

theorem missing_field_aborts:
  "((name, d) \<in> set reactants \<and> (smiles d = None \<or> weight_g d = None)
    \<longrightarrow> (\<exists>err. reactants_loop M W [] reactants = Inl err \<and>
          (\<forall>product_smiles pr.
             calculate_theoretical_yield M W reactants product_smiles pr = Inr (Failure err)))) \<and>
   ((\<forall>(n', d') \<in> set pre. normalized_moles_spec M W d' \<noteq> None) \<and>
    (smiles d = None \<or> weight_g d = None)
    \<longrightarrow> calculate_theoretical_yield M W (pre @ (name, d) # post) product_smiles pr =
          Inr (Failure (InvalidReactantData name)) \<and>
        kind_of (InvalidReactantData name) = MissingField \<and>
        error_message str (InvalidReactantData name) =
          ''Invalid data for reactant '' @ [CHR 0x27] @ name @ [CHR 0x27] @
          ''. Missing SMILES or weight.'')"
proof (intro conjI impI)
  assume a: "(name, d) \<in> set reactants \<and> (smiles d = None \<or> weight_g d = None)"
  then have "process_reactant M W name d = Inl (InvalidReactantData name)"
    by (intro process_reactant_missing) blast
  with a calculate_some_reactant_error obtain err where
    "reactants_loop M W [] reactants = Inl err" by blast
  then show "\<exists>err. reactants_loop M W [] reactants = Inl err \<and>
          (\<forall>product_smiles pr.
             calculate_theoretical_yield M W reactants product_smiles pr = Inr (Failure err))"
    using calculate_loop_error by blast
next
  assume a: "(\<forall>(n', d') \<in> set pre. normalized_moles_spec M W d' \<noteq> None) \<and>
    (smiles d = None \<or> weight_g d = None)"
  then have "process_reactant M W name d = Inl (InvalidReactantData name)"
    by (intro process_reactant_missing) blast
  with a show "calculate_theoretical_yield M W (pre @ (name, d) # post) product_smiles pr =
          Inr (Failure (InvalidReactantData name))"
    by (intro calculate_reactant_error) simp_all
qed simp_all

text \<open>The theorem at the scenario of the specification: two reactants, the second without
  a mass.\<close>

theorem missing_field_aborts_witness:
  "((''B'', water_no_mass) \<in> set [(''ethanol'', ethanol_46g), (''B'', water_no_mass)] \<and>
    weight_g water_no_mass = None \<and>
    normalized_moles_spec example_MolFromSmiles example_CalcExactMolWt ethanol_46g \<noteq> None) \<and>
   calculate_theoretical_yield example_MolFromSmiles example_CalcExactMolWt
     ([(''ethanol'', ethanol_46g)] @ (''B'', water_no_mass) # []) ''O'' 1 =
     Inr (Failure (InvalidReactantData ''B'')) \<and>
   (\<exists>err. \<forall>product_smiles pr.
      calculate_theoretical_yield example_MolFromSmiles example_CalcExactMolWt
        [(''ethanol'', ethanol_46g), (''B'', water_no_mass)] product_smiles pr = Inr (Failure err))"
proof -
  have v: "normalized_moles_spec example_MolFromSmiles example_CalcExactMolWt ethanol_46g \<noteq> None"
    by (simp add: example_ethanol del: not_None_eq)
  have h: "(''B'', water_no_mass) \<in> set [(''ethanol'', ethanol_46g), (''B'', water_no_mass)] \<and>
    weight_g water_no_mass = None \<and>
    (\<forall>(n', d') \<in> set [(''ethanol'', ethanol_46g)].
       normalized_moles_spec example_MolFromSmiles example_CalcExactMolWt d' \<noteq> None)"
    by (simp add: water_no_mass_def example_ethanol del: not_None_eq)
  note t = missing_field_aborts [where M = example_MolFromSmiles and W = example_CalcExactMolWt
      and reactants = "[(''ethanol'', ethanol_46g), (''B'', water_no_mass)]"
      and product_smiles = "''O''" and pr = 1 and pre = "[(''ethanol'', ethanol_46g)]"
      and name = "''B''" and d = water_no_mass and post = "[]" and str = "\<lambda>e. []"]
  from h have c1: "\<exists>err. reactants_loop example_MolFromSmiles example_CalcExactMolWt []
        [(''ethanol'', ethanol_46g), (''B'', water_no_mass)] = Inl err \<and>
      (\<forall>product_smiles pr.
         calculate_theoretical_yield example_MolFromSmiles example_CalcExactMolWt
           [(''ethanol'', ethanol_46g), (''B'', water_no_mass)] product_smiles pr =
         Inr (Failure err))"
    by (intro t [THEN conjunct1, rule_format]) simp
  from h have c2: "calculate_theoretical_yield example_MolFromSmiles example_CalcExactMolWt
     ([(''ethanol'', ethanol_46g)] @ (''B'', water_no_mass) # []) ''O'' 1 =
     Inr (Failure (InvalidReactantData ''B''))"
    by (intro t [THEN conjunct2, rule_format, THEN conjunct1]) simp
  from c1 have "\<exists>err. \<forall>product_smiles pr.
      calculate_theoretical_yield example_MolFromSmiles example_CalcExactMolWt
        [(''ethanol'', ethanol_46g), (''B'', water_no_mass)] product_smiles pr = Inr (Failure err)"
    by (elim exE conjE) (rule exI)
  with h c2 v show ?thesis by (intro conjI) simp_all
qed

text \<open>
  \<^bold>\<open>C7\<close> (two calls with the same inputs return the same result, no hidden state) is not
  stated as a theorem: every function of the logic returns equal results on equal arguments,
  so such a statement would hold of any definition and say nothing about the Python code.
\<close>

text \<open>
  \<^bold>\<open>C8, as stated, fails.\<close> A reactant whose SMILES resolves to a structure of weight zero
  does not lead to an infinite result: the division of line 43 raises
  \<^verbatim>\<open>ZeroDivisionError\<close>, the handler of lines 46-47 catches it, and the function returns an
  error dict.
\<close>

theorem zero_weight_counterexample:
  "example_MolFromSmiles ''*'' = Inr (Some Wildcard) \<and>
   example_CalcExactMolWt Wildcard = Inr 0 \<and>
   calculate_theoretical_yield example_MolFromSmiles example_CalcExactMolWt
     [(''X'', \<lparr>smiles = Some ''*'', weight_g = Some 5, mole_ratio = Some 1\<rparr>)] ''O'' 1 =
     Inr (Failure (ReactantException ''X'' ZeroDivisionError))"
  by (simp add: example_MolFromSmiles_def calculate_theoretical_yield_def process_reactant_def
      reactant_try_body_def py_truediv_def)

text \<open>
  \<^bold>\<open>C8, amended.\<close> No check of the molecular weight precedes the division of line 43. For a
  reactant that the loop reaches (every reactant before it is valid), that passes the check
  of line 34 and whose SMILES resolves to a structure of weight zero, the division raises
  \<^verbatim>\<open>ZeroDivisionError\<close>; the function returns the error dict of line 47 for that reactant, of
  the kind UnexpectedFailure, and no yield.
\<close>

theorem zero_weight_is_caught:
  assumes "\<forall>(n', d') \<in> set pre. normalized_moles_spec M W d' \<noteq> None"
    and "smiles d = Some s" and "s \<noteq> []" and "weight_g d = Some w" and "w \<noteq> 0"
    and "M s = Inr (Some m)" and "W m = Inr 0"
  shows "py_truediv w 0 = Inl ZeroDivisionError \<and>
         calculate_theoretical_yield M W (pre @ (name, d) # post) product_smiles pr =
           Inr (Failure (ReactantException name ZeroDivisionError)) \<and>
         kind_of (ReactantException name ZeroDivisionError) = UnexpectedFailure"
proof -
  have "process_reactant M W name d = Inl (ReactantException name ZeroDivisionError)"
    using assms(2-7) by (rule process_reactant_zero_weight)
  from calculate_reactant_error [OF assms(1) this] show ?thesis
    by (simp add: py_truediv_def)
qed

text \<open>The theorem at ethanol followed by the wildcard atom.\<close>

theorem zero_weight_is_caught_witness:
  "(normalized_moles_spec example_MolFromSmiles example_CalcExactMolWt ethanol_46g \<noteq> None \<and>
    smiles wildcard_5g = Some ''*'' \<and> ''*'' \<noteq> [] \<and> weight_g wildcard_5g = Some 5 \<and>
    (5::real) \<noteq> 0 \<and> example_MolFromSmiles ''*'' = Inr (Some Wildcard) \<and>
    example_CalcExactMolWt Wildcard = Inr 0) \<and>
   calculate_theoretical_yield example_MolFromSmiles example_CalcExactMolWt
     ([(''ethanol'', ethanol_46g)] @ (''X'', wildcard_5g) # []) ''O'' 1 =
     Inr (Failure (ReactantException ''X'' ZeroDivisionError))"
proof -
  have v: "normalized_moles_spec example_MolFromSmiles example_CalcExactMolWt ethanol_46g \<noteq> None"
    by (simp add: example_ethanol del: not_None_eq)
  have h: "\<forall>(n', d') \<in> set [(''ethanol'', ethanol_46g)].
       normalized_moles_spec example_MolFromSmiles example_CalcExactMolWt d' \<noteq> None"
    "smiles wildcard_5g = Some ''*''" "''*'' \<noteq> []" "weight_g wildcard_5g = Some 5"
    "(5::real) \<noteq> 0" "example_MolFromSmiles ''*'' = Inr (Some Wildcard)"
    "example_CalcExactMolWt Wildcard = Inr 0"
    by (simp_all add: example_MolFromSmiles_def wildcard_5g_def example_ethanol del: not_None_eq)
  note t = zero_weight_is_caught [where M = example_MolFromSmiles
      and W = example_CalcExactMolWt and pre = "[(''ethanol'', ethanol_46g)]"
      and d = wildcard_5g and s = "''*''" and w = 5 and m = Wildcard and name = "''X''"
      and post = "[]" and product_smiles = "''O''" and pr = 1]
  from t [OF h] h v show ?thesis by blast
qed




text \<open>
  \<^bold>\<open>C10.\<close> A reactant whose mass is present and zero, or whose SMILES is present and empty,
  is treated as one with the field absent: the iteration returns the error dict of line 35
  in all four cases, the whole function returns the same result for the zero mass as for the
  absent mass (and for the empty SMILES as for the absent one), and when every reactant before
  it is valid that result is the error dict of line 35 for this reactant.
\<close>

theorem zero_mass_or_empty_smiles_as_absent:
  "process_reactant M W name (d\<lparr>weight_g := Some 0\<rparr>) = Inl (InvalidReactantData name) \<and>
   process_reactant M W name (d\<lparr>weight_g := None\<rparr>) = Inl (InvalidReactantData name) \<and>
   process_reactant M W name (d\<lparr>smiles := Some []\<rparr>) = Inl (InvalidReactantData name) \<and>
   process_reactant M W name (d\<lparr>smiles := None\<rparr>) = Inl (InvalidReactantData name) \<and>
   calculate_theoretical_yield M W (pre @ (name, d\<lparr>weight_g := Some 0\<rparr>) # post) product_smiles pr =
     calculate_theoretical_yield M W (pre @ (name, d\<lparr>weight_g := None\<rparr>) # post) product_smiles pr \<and>
   calculate_theoretical_yield M W (pre @ (name, d\<lparr>smiles := Some []\<rparr>) # post) product_smiles pr =
     calculate_theoretical_yield M W (pre @ (name, d\<lparr>smiles := None\<rparr>) # post) product_smiles pr \<and>
   ((\<forall>(n', d') \<in> set pre. normalized_moles_spec M W d' \<noteq> None) \<and>
    (weight_g d = Some 0 \<or> smiles d = Some [])
    \<longrightarrow> calculate_theoretical_yield M W (pre @ (name, d) # post) product_smiles pr =
          Inr (Failure (InvalidReactantData name)))"
proof (intro conjI impI)
  assume a: "(\<forall>(n', d') \<in> set pre. normalized_moles_spec M W d' \<noteq> None) \<and>
    (weight_g d = Some 0 \<or> smiles d = Some [])"
  then have "process_reactant M W name d = Inl (InvalidReactantData name)"
    by (intro process_reactant_missing) blast
  with a show "calculate_theoretical_yield M W (pre @ (name, d) # post) product_smiles pr =
          Inr (Failure (InvalidReactantData name))"
    by (intro calculate_reactant_error) simp_all
next
  show "calculate_theoretical_yield M W (pre @ (name, d\<lparr>weight_g := Some 0\<rparr>) # post) product_smiles pr =
     calculate_theoretical_yield M W (pre @ (name, d\<lparr>weight_g := None\<rparr>) # post) product_smiles pr"
    by (rule calculate_same_outcome) (simp add: process_reactant_missing)
next
  show "calculate_theoretical_yield M W (pre @ (name, d\<lparr>smiles := Some []\<rparr>) # post) product_smiles pr =
     calculate_theoretical_yield M W (pre @ (name, d\<lparr>smiles := None\<rparr>) # post) product_smiles pr"
    by (rule calculate_same_outcome) (simp add: process_reactant_missing)
qed (simp_all add: process_reactant_missing)

text \<open>The theorem at ethanol followed by water with mass zero.\<close>

theorem zero_mass_or_empty_smiles_as_absent_witness:
  "(normalized_moles_spec example_MolFromSmiles example_CalcExactMolWt ethanol_46g \<noteq> None \<and>
    weight_g water_zero_mass = Some 0) \<and>
   calculate_theoretical_yield example_MolFromSmiles example_CalcExactMolWt
     ([(''ethanol'', ethanol_46g)] @ (''water'', water_zero_mass) # []) ''O'' 1 =
     Inr (Failure (InvalidReactantData ''water'')) \<and>
   process_reactant example_MolFromSmiles example_CalcExactMolWt ''water''
     (water_zero_mass\<lparr>weight_g := None\<rparr>) = Inl (InvalidReactantData ''water'')"
proof -
  have v: "normalized_moles_spec example_MolFromSmiles example_CalcExactMolWt ethanol_46g \<noteq> None"
    by (simp add: example_ethanol del: not_None_eq)
  have h: "(\<forall>(n', d') \<in> set [(''ethanol'', ethanol_46g)].
       normalized_moles_spec example_MolFromSmiles example_CalcExactMolWt d' \<noteq> None) \<and>
    weight_g water_zero_mass = Some 0"
    by (simp add: water_zero_mass_def example_ethanol del: not_None_eq)
  note t = zero_mass_or_empty_smiles_as_absent [where M = example_MolFromSmiles
      and W = example_CalcExactMolWt and pre = "[(''ethanol'', ethanol_46g)]"
      and name = "''water''" and d = water_zero_mass and post = "[]"
      and product_smiles = "''O''" and pr = 1]
  from t h v show ?thesis by blast
qed

end
